theory Spec2Isabelle
  imports Complex_Main
begin

section \<open>Data model of the challenges controller\<close>

text \<open>
  The controller \<^verbatim>\<open>website/src/controllers/api-v3/challenges.js\<close> works on four kinds
  of documents: groups, users, challenges and tasks. Each is a record holding the fields
  the controller reads or writes. Balances and prizes are JavaScript numbers, with the
  arithmetic of the section on numbers below; counters are integers
  (\<^verbatim>\<open>$inc: -1\<close> may take them below zero).
\<close>

datatype error =
    ValidationError
  | NotFound string
  | NotAuthorized string
  | TypeError string

record group =
  g_id :: string
  g_balance :: rat
  g_challengeCount :: int
  g_leader :: string
  g_leaderOnly_challenges :: bool

record tag =
  tag_id :: string
  tag_challenge :: "bool option"

record user =
  u_id :: string
  u_balance :: rat
  u_contributor_admin :: bool
  u_challenges :: "string list"
  u_tags :: "tag list"
  u_achievements_challenges :: "string list"
  u_emailNotifications_wonChallenge :: "bool option"
  u_profile_name :: string

record task =
  t_id :: string
  t_type :: string
  t_challenge_id :: "string option"
  t_challenge_broken :: "string option"
  t_challenge_winner :: "string option"
  t_userId :: "string option"

text \<open>
  Modelled from the spec: the Challenge entity of \<^verbatim>\<open>models/challenge\<close>, which is not
  part of the sources at hand. The spec lists its identity, owning group reference, leader
  reference, prize amount, per-type ordered lists of task identities and official flag;
  the controller also reads its name.
\<close>

record challenge =
  c_id :: string
  c_group :: string
  c_leader :: string
  c_prize :: rat
  c_name :: string
  c_official :: bool
  c_tasksOrder :: "(string \<times> string list) list"

text \<open>A task specification of the request body, before it becomes a task document.\<close>

record taskSpec =
  ts_id :: string
  ts_type :: string

text \<open>
  The body of a creation request. \<^verbatim>\<open>prize\<close> and \<^verbatim>\<open>tasks\<close> may be absent
  (\<^verbatim>\<open>undefined\<close>): every comparison of an absent prize with a number is false.
\<close>

record body =
  b_group :: string
  b_prize :: "rat option"
  b_tasks :: "taskSpec list option"
  b_official :: bool
  b_name :: string
  b_leader :: "string option"

section \<open>JavaScript numbers\<close>

text \<open>
  A JavaScript number is an IEEE 754 double. A finite double is modelled by the rational
  number it denotes, and comparisons are those of the rationals. An arithmetic operation
  returns the exact result rounded to the nearest double, ties going to the even
  significand: 53 significant bits, with the smallest exponent \<open>-1022\<close> shared by the
  subnormal numbers. Not-a-number and the infinities (a result of magnitude \<open>2^1024\<close> or
  more) are outside the model.
\<close>

text \<open>The number of binary digits of a positive integer.\<close>

function bit_length :: "int \<Rightarrow> int" where
  "bit_length n = (if n \<le> 0 then 0 else 1 + bit_length (n div 2))"
  by auto
termination
  by (relation "measure nat") auto

declare bit_length.simps [simp del]

definition pow2 :: "int \<Rightarrow> rat" where
  "pow2 e = (if 0 \<le> e then 2 ^ nat e else 1 / 2 ^ nat (- e))"

text \<open>For \<open>0 < x\<close>, the exponent \<open>e\<close> with \<open>2^e \<le> x < 2^(e+1)\<close>.\<close>

definition ilog2 :: "rat \<Rightarrow> int" where
  "ilog2 x = (if 1 \<le> x then bit_length \<lfloor>x\<rfloor> - 1
              else - bit_length (\<lceil>1 / x\<rceil> - 1))"

definition round_half_even :: "rat \<Rightarrow> int" where
  "round_half_even y =
     (let f = \<lfloor>y\<rfloor>; d = y - of_int f
      in if d < 1 / 2 then f else if 1 / 2 < d then f + 1 else if even f then f else f + 1)"

definition round_double :: "rat \<Rightarrow> rat" where
  "round_double x =
     (if x = 0 then 0
      else (let e = max (ilog2 \<bar>x\<bar>) (- 1022) - 52
            in of_int (round_half_even (x / pow2 e)) * pow2 e))"

definition js_add :: "rat \<Rightarrow> rat \<Rightarrow> rat" where
  "js_add x y = round_double (x + y)"

definition js_sub :: "rat \<Rightarrow> rat \<Rightarrow> rat" where
  "js_sub x y = round_double (x - y)"

text \<open>Division, used with the divisor 4 only.\<close>

definition js_div :: "rat \<Rightarrow> rat \<Rightarrow> rat" where
  "js_div x y = round_double (x / y)"

section \<open>Creating a challenge\<close>

subsection \<open>Authorization (lines 43 to 51)\<close>

text \<open>
  The handler receives the outcome of \<^verbatim>\<open>req.validationErrors()\<close> and the result of
  \<^verbatim>\<open>Group.getGroup\<close> from its collaborators; both are inputs of the model.
\<close>

definition createChallenge_authorize ::
  "user \<Rightarrow> string \<Rightarrow> rat option \<Rightarrow> group option \<Rightarrow> error + group" where
  "createChallenge_authorize usr groupId prize found =
     (case found of
        None \<Rightarrow> Inl (NotFound ''groupNotFound'')
      | Some grp \<Rightarrow>
          if g_leaderOnly_challenges grp \<and> g_leader grp \<noteq> u_id usr
          then Inl (NotAuthorized ''onlyGroupLeaderChal'')
          else if groupId = ''habitrpg'' \<and> (case prize of None \<Rightarrow> False | Some p \<Rightarrow> p < 1)
          then Inl (NotAuthorized ''pubChalsMinPrize'')
          else Inr grp)"

subsection \<open>Funding (lines 53 to 73)\<close>

text \<open>
  \<^verbatim>\<open>group.balance && group.leader === user._id ? group.balance : 0\<close>: the balance of
  the group counts only when it is non-zero and the requester leads the group.
\<close>

definition groupBalance :: "group \<Rightarrow> user \<Rightarrow> rat" where
  "groupBalance grp usr =
     (if g_balance grp \<noteq> 0 \<and> g_leader grp = u_id usr then g_balance grp else 0)"

text \<open>
  The block changes the group and the user in memory, and may throw: the result is the
  error thrown, if any, with the two documents as the block leaves them.
\<close>

definition createChallenge_fund ::
  "group \<Rightarrow> user \<Rightarrow> rat option \<Rightarrow> error option \<times> group \<times> user" where
  "createChallenge_fund grp usr prize =
     (case prize of
        None \<Rightarrow> (None, grp, usr)
      | Some p \<Rightarrow>
          if p > 0 then
            (let gb = groupBalance grp usr;
                 prizeCost = js_div p 4
             in if prizeCost > js_add (u_balance usr) gb
                then (Some (NotAuthorized ''cantAfford''), grp, usr)
                else if gb \<ge> prizeCost
                then (None, grp\<lparr>g_balance := js_sub (g_balance grp) prizeCost\<rparr>, usr)
                else if gb > 0
                then (let remainder = js_sub prizeCost (g_balance grp)
                      in (None, grp\<lparr>g_balance := 0\<rparr>,
                          usr\<lparr>u_balance := js_sub (u_balance usr) remainder\<rparr>))
                else (None, grp, usr\<lparr>u_balance := js_sub (u_balance usr) prizeCost\<rparr>))
          else (None, grp, usr))"

subsection \<open>Construction (lines 75 to 80)\<close>

text \<open>
  Modelled from the spec: \<^verbatim>\<open>new Challenge(Challenge.sanitize(req.body))\<close>, whose model
  file is not part of the sources at hand. The entity takes its group, leader, prize, name
  and official flag from the request body, a fresh identity, and an empty order list for
  each task type.
\<close>

definition newChallenge :: "string \<Rightarrow> body \<Rightarrow> challenge" where
  "newChallenge newId b =
     \<lparr>c_id = newId,
      c_group = b_group b,
      c_leader = (case b_leader b of None \<Rightarrow> [] | Some l \<Rightarrow> l),
      c_prize = (case b_prize b of None \<Rightarrow> 0 | Some p \<Rightarrow> p),
      c_name = b_name b,
      c_official = b_official b,
      c_tasksOrder = [(''habits'', []), (''dailys'', []), (''todos'', []), (''rewards'', [])]\<rparr>"

record prepared =
  p_group :: group
  p_user :: user
  p_tasks :: "taskSpec list"
  p_body :: body
  p_challenge :: challenge

definition createChallenge_construct :: "group \<Rightarrow> user \<Rightarrow> body \<Rightarrow> string \<Rightarrow> prepared" where
  "createChallenge_construct grp usr b newId =
     (let grp1 = grp\<lparr>g_challengeCount := g_challengeCount grp + 1\<rparr>;
          tasks = (case b_tasks b of None \<Rightarrow> [] | Some ts \<Rightarrow> ts);
          b1 = b\<lparr>b_leader := Some (u_id usr)\<rparr>;
          b2 = b1\<lparr>b_official := (u_contributor_admin usr \<and> b_official b1)\<rparr>;
          challenge = newChallenge newId b2
      in \<lparr>p_group = grp1, p_user = usr, p_tasks = tasks, p_body = b2,
          p_challenge = challenge\<rparr>)"

text \<open>Lines 43 to 80 in sequence: the documents in memory when line 82 is reached.\<close>

definition createChallenge_prepare ::
  "user \<Rightarrow> body \<Rightarrow> string \<Rightarrow> group option \<Rightarrow> error + prepared" where
  "createChallenge_prepare usr b newId found =
     (case createChallenge_authorize usr (b_group b) (b_prize b) found of
        Inl e \<Rightarrow> Inl e
      | Inr grp \<Rightarrow>
          (case createChallenge_fund grp usr (b_prize b) of
             (Some e, grp1, usr1) \<Rightarrow> Inl e
           | (None, grp1, usr1) \<Rightarrow> Inr (createChallenge_construct grp1 usr1 b newId)))"

subsection \<open>Seed tasks and response (lines 82 to 96)\<close>

text \<open>
  The callback of line 82 builds a task from a specification, binds it to the challenge
  and pushes its identity on the order list of its type. It changes the challenge, so it
  passes the challenge along. \<^verbatim>\<open>ts_id\<close> is the identity the new task document gets.

  Line 86 pushes on \<^verbatim>\<open>challenge.tasksOrder[`${task.type}s`]\<close>, which raises a TypeError
  when the challenge keeps no list under that key.
\<close>

definition pushTaskOrder ::
  "string \<Rightarrow> string \<Rightarrow> (string \<times> string list) list \<Rightarrow> error + (string \<times> string list) list" where
  "pushTaskOrder key tid order =
     (if key \<in> set (map fst order)
      then Inr (map (\<lambda>(k, ids). if k = key then (k, ids @ [tid]) else (k, ids)) order)
      else Inl (TypeError ''cannot push on undefined''))"

text \<open>
  Modelled from the spec: the task constructors \<^verbatim>\<open>Tasks[taskToCreate.type]\<close> of
  \<^verbatim>\<open>models/task\<close>, not part of the sources at hand. A type without a constructor raises
  a TypeError at line 84; the types with a constructor are taken to be those the challenge
  keeps an order list for, so that one test stands for both failures.
\<close>

definition seedTask :: "taskSpec \<Rightarrow> challenge \<Rightarrow> error + (task \<times> challenge)" where
  "seedTask taskToCreate chal =
     (let tsk = \<lparr>t_id = ts_id taskToCreate, t_type = ts_type taskToCreate,
                 t_challenge_id = Some (c_id chal), t_challenge_broken = None,
                 t_challenge_winner = None, t_userId = None\<rparr>
      in case pushTaskOrder (t_type tsk @ ''s'') (t_id tsk) (c_tasksOrder chal) of
           Inl e \<Rightarrow> Inl e
         | Inr order \<Rightarrow> Inr (tsk, chal\<lparr>c_tasksOrder := order\<rparr>))"

text \<open>
  \<^verbatim>\<open>Array.prototype.map(callbackfn, thisArg)\<close>: a first argument that is not callable
  raises a TypeError before any element is visited; the second argument only sets
  \<^verbatim>\<open>this\<close> for the callback. A callback that throws ends the traversal.
\<close>

datatype ('a, 's, 'b) jsval = Fn "'a \<Rightarrow> 's \<Rightarrow> error + ('b \<times> 's)" | Arr "'a list"

fun map_state ::
  "('a \<Rightarrow> 's \<Rightarrow> error + ('b \<times> 's)) \<Rightarrow> 'a list \<Rightarrow> 's \<Rightarrow> error + ('b list \<times> 's)" where
  "map_state f [] s = Inr ([], s)"
| "map_state f (x # xs) s =
     (case f x s of
        Inl e \<Rightarrow> Inl e
      | Inr (y, s1) \<Rightarrow>
          (case map_state f xs s1 of
             Inl e \<Rightarrow> Inl e
           | Inr (ys, s2) \<Rightarrow> Inr (y # ys, s2)))"

definition js_array_map ::
  "('a, 's, 'b) jsval \<Rightarrow> ('a, 's, 'b) jsval \<Rightarrow> 'a list \<Rightarrow> 's \<Rightarrow> error + ('b list \<times> 's)" where
  "js_array_map callbackfn thisArg xs s =
     (case callbackfn of
        Fn f \<Rightarrow> map_state f xs s
      | Arr _ \<Rightarrow> Inl (TypeError ''callbackfn is not a function''))"

text \<open>
  Modelled from the spec: \<^verbatim>\<open>savedChal.syncToUser(user)\<close> of \<^verbatim>\<open>models/challenge\<close>, not
  part of the sources at hand: it adds the challenge to the member's joined set and saves
  the member.
\<close>

definition syncToUser :: "challenge \<Rightarrow> user \<Rightarrow> user" where
  "syncToUser chal usr = usr\<lparr>u_challenges := u_challenges usr @ [c_id chal]\<rparr>"

text \<open>
  What a request that gets through would leave behind. Line 90 puts the challenge and the
  group themselves, not a save of either, in front of the task saves, so \<^verbatim>\<open>Q.all\<close>
  stores neither of them: the tasks are stored by the callback, the member by
  \<^verbatim>\<open>syncToUser\<close>, and the challenge is sent with status 201.
\<close>

record created =
  cr_response :: challenge
  cr_tasks :: "task list"
  cr_user :: user

text \<open>
  The handler. Line 82 is \<^verbatim>\<open>tasks.map(tasks, taskToCreate => ...)\<close>: the array itself
  is passed where the callback belongs. An error result is what \<^verbatim>\<open>next\<close> receives,
  and nothing was stored.
\<close>

definition createChallenge ::
  "user \<Rightarrow> body \<Rightarrow> string \<Rightarrow> bool \<Rightarrow> group option \<Rightarrow> error + created" where
  "createChallenge usr b newId validationErrors found =
     (if validationErrors then Inl ValidationError
      else
        (case createChallenge_prepare usr b newId found of
           Inl e \<Rightarrow> Inl e
         | Inr p \<Rightarrow>
             (case js_array_map (Arr (p_tasks p)) (Fn seedTask) (p_tasks p) (p_challenge p) of
                Inl e \<Rightarrow> Inl e
              | Inr (toSave, chal) \<Rightarrow>
                  Inr \<lparr>cr_response = chal, cr_tasks = toSave,
                       cr_user = syncToUser chal (p_user p)\<rparr>)))"

section \<open>Closing a challenge\<close>

text \<open>
  The stores the teardown writes to, and the notifications handed to the mailer and the
  push service.
\<close>

datatype notification =
    Email string string "(string \<times> string) list"
  | Push string string string

record world =
  w_challenges :: "string \<rightharpoonup> challenge"
  w_tasks :: "string \<rightharpoonup> task"
  w_users :: "string \<rightharpoonup> user"
  w_groups :: "string \<rightharpoonup> group"
  w_sent :: "notification list"

text \<open>The second argument of \<^verbatim>\<open>_closeChal\<close>: a reason and, possibly, a winner.\<close>

record broken =
  br_broken :: "string option"
  br_winner :: "user option"

text \<open>
  \<^verbatim>\<open>Q.allSettled\<close> lets every store operation succeed or fail on its own. Which ones
  succeed is decided by the stores, so it is an input: one flag for each operation, in
  the order of dispatch. An operation that fails leaves its collection as it was.

  The operations run concurrently. Those on different collections do not meet, the two on
  the tasks give the same tasks in either order, and the update of the tagged users
  touches fields that the other two operations on users leave alone. The refund of the
  leader and the save of the winner both write a balance: when leader and winner are one
  user, the outcome depends on which of the two the store applies first, and that is an
  input as well.
\<close>

record settled =
  ok_removeChallenge :: bool
  ok_removeTasks :: bool
  ok_updateUsers :: bool
  ok_breakTasks :: bool
  ok_updateGroup :: bool
  ok_refund :: bool
  ok_saveWinner :: bool
  save_before_refund :: bool

definition attempt :: "bool \<Rightarrow> ('a \<Rightarrow> 'a) \<Rightarrow> 'a \<Rightarrow> 'a" where
  "attempt ok f x = (if ok then f x else x)"

text \<open>\<^verbatim>\<open>Challenge.remove({_id: challenge._id})\<close>\<close>

definition removeChallenge :: "string \<Rightarrow> (string \<rightharpoonup> challenge) \<Rightarrow> (string \<rightharpoonup> challenge)" where
  "removeChallenge cid challenges = challenges(cid := None)"

text \<open>\<^verbatim>\<open>Tasks.Task.remove({'challenge.id': challenge._id, userId: {$exists: false}})\<close>\<close>

definition removeSeedTasks :: "string \<Rightarrow> (string \<rightharpoonup> task) \<Rightarrow> (string \<rightharpoonup> task)" where
  "removeSeedTasks cid tasks =
     (\<lambda>k. case tasks k of
             None \<Rightarrow> None
           | Some t \<Rightarrow> if t_challenge_id t = Some cid \<and> t_userId t = None
                       then None else Some t)"

text \<open>
  The multi-update of users who have the challenge both in their joined list and among
  their tags: the positional \<^verbatim>\<open>tags.$.challenge\<close> clears the flag of the first tag
  that matches, and \<^verbatim>\<open>$pull\<close> removes the challenge from the joined list.
\<close>

fun clearFirstTag :: "string \<Rightarrow> tag list \<Rightarrow> tag list" where
  "clearFirstTag cid [] = []"
| "clearFirstTag cid (t # ts) =
     (if tag_id t = cid then t\<lparr>tag_challenge := Some False\<rparr> # ts
      else t # clearFirstTag cid ts)"

definition untagUsers :: "string \<Rightarrow> (string \<rightharpoonup> user) \<Rightarrow> (string \<rightharpoonup> user)" where
  "untagUsers cid users =
     (\<lambda>k. case users k of
             None \<Rightarrow> None
           | Some u \<Rightarrow>
               if cid \<in> set (u_challenges u) \<and> cid \<in> set (map tag_id (u_tags u))
               then Some (u\<lparr>u_tags := clearFirstTag cid (u_tags u),
                            u_challenges := removeAll cid (u_challenges u)\<rparr>)
               else Some u)"

text \<open>
  The multi-update of every task bound to the challenge, owned or not: it sets the broken
  reason and the name of the winner (absent when there is no winner).
\<close>

definition breakTasks ::
  "string \<Rightarrow> string option \<Rightarrow> string option \<Rightarrow> (string \<rightharpoonup> task) \<Rightarrow> (string \<rightharpoonup> task)" where
  "breakTasks cid brokenReason winnerName tasks =
     (\<lambda>k. case tasks k of
             None \<Rightarrow> None
           | Some t \<Rightarrow> if t_challenge_id t = Some cid
                       then Some (t\<lparr>t_challenge_broken := brokenReason,
                                    t_challenge_winner := winnerName\<rparr>)
                       else Some t)"

text \<open>\<^verbatim>\<open>Group.update({_id: challenge.group}, {$inc: {challengeCount: -1}})\<close>\<close>

definition decChallengeCount :: "string \<Rightarrow> (string \<rightharpoonup> group) \<Rightarrow> (string \<rightharpoonup> group)" where
  "decChallengeCount gid groups =
     (case groups gid of
        None \<Rightarrow> groups
      | Some g \<Rightarrow> groups(gid \<mapsto> g\<lparr>g_challengeCount := g_challengeCount g - 1\<rparr>))"

text \<open>\<^verbatim>\<open>User.update({_id: challenge.leader}, {$inc: {balance: challenge.prize / 4}})\<close>\<close>

definition refundLeader :: "string \<Rightarrow> rat \<Rightarrow> (string \<rightharpoonup> user) \<Rightarrow> (string \<rightharpoonup> user)" where
  "refundLeader leaderId amount users =
     (case users leaderId of
        None \<Rightarrow> users
      | Some u \<Rightarrow> users(leaderId \<mapsto> u\<lparr>u_balance := js_add (u_balance u) amount\<rparr>))"

text \<open>
  \<^verbatim>\<open>winner.save()\<close> on a document that was loaded before: the store receives the paths
  the handler changed, the new balance as a value and the achievement as a push.
\<close>

definition saveWinner :: "user \<Rightarrow> string \<Rightarrow> (string \<rightharpoonup> user) \<Rightarrow> (string \<rightharpoonup> user)" where
  "saveWinner winner achievement users =
     (case users (u_id winner) of
        None \<Rightarrow> users
      | Some u \<Rightarrow>
          users(u_id winner \<mapsto>
            u\<lparr>u_balance := u_balance winner,
              u_achievements_challenges := u_achievements_challenges u @ [achievement]\<rparr>))"

text \<open>The callback run once the winner is saved (lines 182 to 190).\<close>

definition notifyWinner :: "user \<Rightarrow> challenge \<Rightarrow> notification list \<Rightarrow> notification list" where
  "notifyWinner savedWinner chal sent =
     (let sent1 = (if u_emailNotifications_wonChallenge savedWinner \<noteq> Some False
                   then sent @ [Email (u_id savedWinner) ''won-challenge''
                                   [(''CHALLENGE_NAME'', c_name chal)]]
                   else sent)
      in sent1 @ [Push (u_id savedWinner) ''wonChallenge'' (c_name chal)])"

text \<open>The winner document in memory after lines 180 and 181.\<close>

definition awardWinner :: "user \<Rightarrow> challenge \<Rightarrow> user" where
  "awardWinner winner chal =
     winner\<lparr>u_achievements_challenges := u_achievements_challenges winner @ [c_name chal],
            u_balance := js_add (u_balance winner) (js_div (c_prize chal) 4)\<rparr>"

definition closeChal :: "world \<Rightarrow> challenge \<Rightarrow> broken \<Rightarrow> settled \<Rightarrow> world" where
  "closeChal w chal brk st =
     (let winner = br_winner brk;
          brokenReason = br_broken brk;
          challenges1 = attempt (ok_removeChallenge st) (removeChallenge (c_id chal)) (w_challenges w);
          tasks1 = attempt (ok_removeTasks st) (removeSeedTasks (c_id chal)) (w_tasks w);
          users1 = attempt (ok_updateUsers st) (untagUsers (c_id chal)) (w_users w);
          tasks2 = attempt (ok_breakTasks st)
                     (breakTasks (c_id chal) brokenReason (map_option u_profile_name winner))
                     tasks1;
          groups1 = attempt (ok_updateGroup st) (decChallengeCount (c_group chal)) (w_groups w);
          refund = (if c_group chal \<noteq> ''habitrpg'' \<and> brokenReason = Some ''CHALLENGE_DELETED''
                    then attempt (ok_refund st)
                           (refundLeader (c_leader chal) (js_div (c_prize chal) 4))
                    else id);
          save = (case winner of
                    None \<Rightarrow> id
                  | Some wn \<Rightarrow> attempt (ok_saveWinner st)
                                 (saveWinner (awardWinner wn chal) (c_name chal)));
          users3 = (if save_before_refund st then refund (save users1)
                    else save (refund users1));
          sent1 = (case winner of
                     None \<Rightarrow> w_sent w
                   | Some wn \<Rightarrow> attempt (ok_saveWinner st)
                                  (notifyWinner (awardWinner wn chal) chal) (w_sent w))
      in \<lparr>w_challenges = challenges1, w_tasks = tasks2, w_users = users3,
          w_groups = groups1, w_sent = sent1\<rparr>)"

section \<open>Deleting a challenge and selecting a winner\<close>


text \<open>
  The first callback of \<^verbatim>\<open>selectChallengeWinner\<close> (lines 255 to 262). It tests the
  variable \<^verbatim>\<open>challenge\<close> of the enclosing handler, which it assigns only afterwards;
  the model takes the value of that variable as an argument next to the document that
  was found, and returns the new value with the result of the winner lookup.
\<close>

definition selectChallengeWinner_found ::
  "world \<Rightarrow> user \<Rightarrow> string \<Rightarrow> challenge option \<Rightarrow> challenge option
     \<Rightarrow> error + (challenge option \<times> user option)" where
  "selectChallengeWinner_found w usr winnerId challenge challengeFound =
     (case challenge of
        None \<Rightarrow> Inl (NotFound ''challengeNotFound'')
      | Some chal \<Rightarrow>
          if c_leader chal \<noteq> u_id usr \<and> \<not> u_contributor_admin usr
          then Inl (NotAuthorized ''onlyLeaderDeleteChal'')
          else Inr (challengeFound, w_users w winnerId))"

text \<open>
  The second callback (lines 263 to 269). Building the NotFound error reads
  \<^verbatim>\<open>req.parama.winnerId\<close>, and \<^verbatim>\<open>req.parama\<close> is undefined, so that branch raises a
  TypeError; so does reading \<^verbatim>\<open>challenge._id\<close> when no challenge was found.
\<close>

definition selectChallengeWinner_winner ::
  "world \<Rightarrow> settled \<Rightarrow> challenge option \<Rightarrow> user option \<Rightarrow> (error + unit) \<times> world" where
  "selectChallengeWinner_winner w st challenge winner =
     (case winner of
        None \<Rightarrow> (Inl (TypeError ''req.parama is undefined''), w)
      | Some wn \<Rightarrow>
          (case challenge of
             None \<Rightarrow> (Inl (TypeError ''challenge is null''), w)
           | Some chal \<Rightarrow>
               if c_id chal \<notin> set (u_challenges wn)
               then (Inl (TypeError ''req.parama is undefined''), w)
               else (Inr (),
                     closeChal w chal
                       \<lparr>br_broken = Some ''CHALLENGE_DELETED'', br_winner = Some wn\<rparr> st)))"

text \<open>The handler: \<^verbatim>\<open>let challenge;\<close> leaves the variable undefined for the first callback.\<close>

definition selectChallengeWinner ::
  "world \<Rightarrow> user \<Rightarrow> string \<Rightarrow> string \<Rightarrow> bool \<Rightarrow> settled \<Rightarrow> (error + unit) \<times> world" where
  "selectChallengeWinner w usr challengeId winnerId validationErrors st =
     (if validationErrors then (Inl ValidationError, w)
      else
        (let challenge = None
         in case selectChallengeWinner_found w usr winnerId challenge
                   (w_challenges w challengeId) of
              Inl e \<Rightarrow> (Inl e, w)
            | Inr (challenge1, winner) \<Rightarrow> selectChallengeWinner_winner w st challenge1 winner))"

section \<open>Example documents\<close>

text \<open>
  A guild led by Ann with one unit of shared balance, a challenge of prize 8 that Ann
  leads in it, a seed task of the challenge and Cy's copy of it. Cy has joined the
  challenge and has switched off the email for won challenges; Bob is a plain member.
\<close>

definition ex_group :: group where
  "ex_group = \<lparr>g_id = ''g1'', g_balance = 1, g_challengeCount = 3, g_leader = ''ann'',
               g_leaderOnly_challenges = False\<rparr>"

definition ex_ann :: user where
  "ex_ann = \<lparr>u_id = ''ann'', u_balance = 5, u_contributor_admin = False, u_challenges = [],
             u_tags = [], u_achievements_challenges = [],
             u_emailNotifications_wonChallenge = None, u_profile_name = ''Ann''\<rparr>"

definition ex_bob :: user where
  "ex_bob = \<lparr>u_id = ''bob'', u_balance = 10, u_contributor_admin = False, u_challenges = [],
             u_tags = [], u_achievements_challenges = [],
             u_emailNotifications_wonChallenge = None, u_profile_name = ''Bob''\<rparr>"

definition ex_cy :: user where
  "ex_cy = \<lparr>u_id = ''cy'', u_balance = 2, u_contributor_admin = False, u_challenges = [''c1''],
            u_tags = [\<lparr>tag_id = ''c1'', tag_challenge = Some True\<rparr>],
            u_achievements_challenges = [''Walk''],
            u_emailNotifications_wonChallenge = Some False, u_profile_name = ''Cy''\<rparr>"

definition ex_challenge :: challenge where
  "ex_challenge = \<lparr>c_id = ''c1'', c_group = ''g1'', c_leader = ''ann'', c_prize = 8,
                   c_name = ''Run'', c_official = False,
                   c_tasksOrder = [(''habits'', [''t1'']), (''dailys'', []), (''todos'', []),
                                   (''rewards'', [])]\<rparr>"

definition ex_seed :: task where
  "ex_seed = \<lparr>t_id = ''t1'', t_type = ''habit'', t_challenge_id = Some ''c1'',
              t_challenge_broken = None, t_challenge_winner = None, t_userId = None\<rparr>"

definition ex_copy :: task where
  "ex_copy = \<lparr>t_id = ''t2'', t_type = ''habit'', t_challenge_id = Some ''c1'',
              t_challenge_broken = None, t_challenge_winner = None, t_userId = Some ''cy''\<rparr>"

definition ex_world :: world where
  "ex_world = \<lparr>w_challenges = [''c1'' \<mapsto> ex_challenge],
               w_tasks = [''t1'' \<mapsto> ex_seed, ''t2'' \<mapsto> ex_copy],
               w_users = [''ann'' \<mapsto> ex_ann, ''bob'' \<mapsto> ex_bob, ''cy'' \<mapsto> ex_cy],
               w_groups = [''g1'' \<mapsto> ex_group],
               w_sent = []\<rparr>"

definition ex_settled :: settled where
  "ex_settled = \<lparr>ok_removeChallenge = True, ok_removeTasks = True, ok_updateUsers = True,
                 ok_breakTasks = True, ok_updateGroup = True, ok_refund = True,
                 ok_saveWinner = True, save_before_refund = False\<rparr>"

text \<open>The doubles nearest to 0.1 and to 1.2.\<close>

definition dbl_0_1 :: rat where
  "dbl_0_1 = 3602879701896397 / 36028797018963968"

definition dbl_1_2 :: rat where
  "dbl_1_2 = 5404319552844595 / 4503599627370496"

definition ex_body :: body where
  "ex_body = \<lparr>b_group = ''g1'', b_prize = Some 8,
              b_tasks = Some [\<lparr>ts_id = ''t9'', ts_type = ''habit''\<rparr>],
              b_official = True, b_name = ''Swim'', b_leader = None\<rparr>"

section \<open>Rounding\<close>

lemma round_half_even_nonneg: "0 \<le> y \<Longrightarrow> 0 \<le> round_half_even y"
  by (simp add: round_half_even_def Let_def)

lemma pow2_pos: "0 < pow2 e"
  by (simp add: pow2_def)

lemma round_double_nonneg: "0 \<le> x \<Longrightarrow> 0 \<le> round_double x"
  using round_half_even_nonneg [of "x / pow2 (max (ilog2 \<bar>x\<bar>) (- 1022) - 52)"]
    pow2_pos [of "max (ilog2 \<bar>x\<bar>) (- 1022) - 52"]
  by (simp add: round_double_def Let_def less_imp_le)

lemma js_div_nonneg: "0 < p \<Longrightarrow> 0 \<le> js_div p 4"
  by (simp add: js_div_def round_double_nonneg)

text \<open>The operations on the values of the examples, and two roundings that show.\<close>

lemma js_small:
  "js_div 8 4 = 2 \<and> js_add 5 1 = 6 \<and> js_sub 2 1 = 1 \<and> js_sub 5 1 = 4
   \<and> js_add 10 0 = 10 \<and> js_sub 10 2 = 8 \<and> js_div 20 4 = 5 \<and> js_add 1 0 = 1
   \<and> js_add 5 2 = 7 \<and> round_double 1 = 1"
  by code_simp

lemma js_rounds:
  "round_double (1 / 10) = dbl_0_1
   \<and> js_add dbl_0_1 (2 * dbl_0_1) = 1351079888211149 / 4503599627370496
   \<and> js_sub 100000000000000000 1 = 100000000000000000"
  by code_simp

section \<open>The escrow allocation\<close>

lemma fund_no_prize:
  "(case prize of None \<Rightarrow> True | Some p \<Rightarrow> p \<le> 0) \<Longrightarrow>
   createChallenge_fund grp usr prize = (None, grp, usr)"
  by (auto simp: createChallenge_fund_def split: option.splits)

lemma fund_succeeds_iff:
  "fst (createChallenge_fund grp usr (Some p)) = None \<longleftrightarrow>
   (0 < p \<longrightarrow> js_div p 4 \<le> js_add (u_balance usr) (groupBalance grp usr))"
  by (auto simp: createChallenge_fund_def Let_def)

text \<open>
  C1, as the code has it. Whenever funding a positive prize succeeds, the prize cost (the
  quarter of the prize, as the division returns it) is within the sum of the member's
  balance and the eligible group balance, and exactly one of three outcomes holds: the
  eligible balance covers the cost and the group alone is debited; or it is positive but
  short, the group is left with 0 and the member is debited the remainder; or there is
  none and the member alone is debited. Every debit is a subtraction of doubles, so it is
  rounded: the two contributions add up to the prize cost whenever the subtractions of
  the outcome are exact.
\<close>

theorem fund_allocation:
  assumes "0 < p"
    and "createChallenge_fund grp usr (Some p) = (None, grp1, usr1)"
  shows "(let prizeCost = js_div p 4;
              gb = groupBalance grp usr;
              groupAll = (prizeCost \<le> gb
                          \<and> grp1 = grp\<lparr>g_balance := js_sub (g_balance grp) prizeCost\<rparr>
                          \<and> usr1 = usr);
              split = (0 < gb \<and> gb < prizeCost
                        \<and> grp1 = grp\<lparr>g_balance := 0\<rparr>
                        \<and> usr1 = usr\<lparr>u_balance :=
                                    js_sub (u_balance usr) (js_sub prizeCost (g_balance grp))\<rparr>);
              memberAll = (gb \<le> 0 \<and> gb < prizeCost
                           \<and> grp1 = grp
                           \<and> usr1 = usr\<lparr>u_balance := js_sub (u_balance usr) prizeCost\<rparr>);
              exact = (if prizeCost \<le> gb
                       then js_sub (g_balance grp) prizeCost = g_balance grp - prizeCost
                       else if 0 < gb
                       then js_sub prizeCost (g_balance grp) = prizeCost - g_balance grp
                            \<and> js_sub (u_balance usr) (prizeCost - g_balance grp)
                                = u_balance usr - (prizeCost - g_balance grp)
                       else js_sub (u_balance usr) prizeCost = u_balance usr - prizeCost)
          in prizeCost \<le> js_add (u_balance usr) gb
             \<and> ((groupAll \<and> \<not> split \<and> \<not> memberAll)
                  \<or> (\<not> groupAll \<and> split \<and> \<not> memberAll)
                  \<or> (\<not> groupAll \<and> \<not> split \<and> memberAll))
             \<and> (exact \<longrightarrow> (g_balance grp - g_balance grp1) + (u_balance usr - u_balance usr1)
                            = prizeCost))"
proof -
  let ?gb = "groupBalance grp usr"
  let ?cost = "js_div p 4"
  have afford: "\<not> ?cost > js_add (u_balance usr) ?gb"
    using assms by (auto simp: createChallenge_fund_def Let_def split: if_splits)
  consider (all) "?cost \<le> ?gb" | (part) "?gb < ?cost" "0 < ?gb" | (none) "?gb < ?cost" "?gb \<le> 0"
    by linarith
  then show ?thesis
  proof cases
    case all
    have "grp1 = grp\<lparr>g_balance := js_sub (g_balance grp) ?cost\<rparr>" "usr1 = usr"
      using assms afford all by (auto simp: createChallenge_fund_def Let_def)
    then show ?thesis using afford all by (simp add: Let_def)
  next
    case part
    then have gb: "?gb = g_balance grp"
      by (auto simp: groupBalance_def split: if_splits)
    have "grp1 = grp\<lparr>g_balance := 0\<rparr>"
         "usr1 = usr\<lparr>u_balance := js_sub (u_balance usr) (js_sub ?cost (g_balance grp))\<rparr>"
      using assms afford part by (auto simp: createChallenge_fund_def Let_def)
    then show ?thesis using afford part gb by (simp add: Let_def)
  next
    case none
    have "grp1 = grp" "usr1 = usr\<lparr>u_balance := js_sub (u_balance usr) ?cost\<rparr>"
      using assms afford none by (auto simp: createChallenge_fund_def Let_def)
    then show ?thesis using afford none by (simp add: Let_def)
  qed
qed

theorem fund_allocation_witness:
  "(0::rat) < 8
   \<and> createChallenge_fund ex_group ex_ann (Some 8)
       = (None, ex_group\<lparr>g_balance := 0\<rparr>, ex_ann\<lparr>u_balance := 4\<rparr>)
   \<and> groupBalance ex_group ex_ann = 1
   \<and> js_div 8 4 = 2
   \<and> js_sub (js_div 8 4) (g_balance ex_group) = js_div 8 4 - g_balance ex_group
   \<and> js_sub (u_balance ex_ann) (js_div 8 4 - g_balance ex_group)
       = u_balance ex_ann - (js_div 8 4 - g_balance ex_group)
   \<and> (g_balance ex_group - g_balance (ex_group\<lparr>g_balance := 0\<rparr>))
       + (u_balance ex_ann - u_balance (ex_ann\<lparr>u_balance := 4\<rparr>)) = js_div 8 4"
proof -
  have pos: "(0::rat) < 8" by simp
  have run: "createChallenge_fund ex_group ex_ann (Some 8)
               = (None, ex_group\<lparr>g_balance := 0\<rparr>, ex_ann\<lparr>u_balance := 4\<rparr>)"
    by code_simp
  have vals: "groupBalance ex_group ex_ann = 1 \<and> g_balance ex_group = 1 \<and> u_balance ex_ann = 5"
    by (simp add: groupBalance_def ex_group_def ex_ann_def)
  have num: "js_div 8 4 = 2 \<and> js_sub 2 1 = 1 \<and> js_sub 5 1 = 4"
    using js_small by simp
  show ?thesis
    using fund_allocation [OF pos run] pos run vals num
    by (simp add: Let_def)
qed

text \<open>
  C1, as stated, has the two contributions add up to the prize cost. Ann leads a guild
  with a balance of 0.1, has 0.5 herself and sets a prize of 1.2 (each the nearest
  double): funding succeeds, the guild is left with 0 and Ann with 0.30000000000000004,
  and what the two balances lost is not the quarter of the prize.
\<close>

theorem fund_allocation_rounds:
  "round_double dbl_0_1 = dbl_0_1 \<and> round_double (1 / 2) = 1 / 2 \<and> round_double dbl_1_2 = dbl_1_2
   \<and> 0 < dbl_1_2
   \<and> createChallenge_fund (ex_group\<lparr>g_balance := dbl_0_1\<rparr>) (ex_ann\<lparr>u_balance := 1 / 2\<rparr>)
        (Some dbl_1_2)
       = (None, ex_group\<lparr>g_balance := 0\<rparr>,
          ex_ann\<lparr>u_balance := 1351079888211149 / 4503599627370496\<rparr>)
   \<and> (dbl_0_1 - 0) + (1 / 2 - 1351079888211149 / 4503599627370496) \<noteq> js_div dbl_1_2 4
   \<and> js_div dbl_1_2 4 = dbl_1_2 / 4"
  by code_simp

text \<open>
  C6, as the code has it. When the cost of a positive prize exceeds the sum of the
  member's balance and the eligible group balance, the sum being the rounded one that
  the handler computes, funding throws NotAuthorized and leaves the group and the member
  as they were; the handler hands that error to its caller and stores nothing.
\<close>

theorem insufficient_funds_rejected:
  assumes "0 < p"
    and "js_div p 4 > js_add (u_balance usr) (groupBalance grp usr)"
  shows "createChallenge_fund grp usr (Some p) = (Some (NotAuthorized ''cantAfford''), grp, usr)
         \<and> (b_prize b = Some p
              \<and> createChallenge_authorize usr (b_group b) (b_prize b) found = Inr grp
            \<longrightarrow> createChallenge usr b newId False found = Inl (NotAuthorized ''cantAfford''))"
proof -
  have f: "createChallenge_fund grp usr (Some p) = (Some (NotAuthorized ''cantAfford''), grp, usr)"
    using assms by (simp add: createChallenge_fund_def Let_def)
  have "createChallenge usr b newId False found = Inl (NotAuthorized ''cantAfford'')"
    if "b_prize b = Some p"
      and "createChallenge_authorize usr (b_group b) (b_prize b) found = Inr grp"
    using that f by (simp add: createChallenge_def createChallenge_prepare_def)
  with f show ?thesis by blast
qed

theorem insufficient_funds_rejected_witness:
  "(0::rat) < 20
   \<and> js_div 20 4 > js_add (u_balance (ex_bob\<lparr>u_balance := 1\<rparr>))
                      (groupBalance (ex_group\<lparr>g_balance := 0\<rparr>) (ex_bob\<lparr>u_balance := 1\<rparr>))
   \<and> createChallenge_fund (ex_group\<lparr>g_balance := 0\<rparr>) (ex_bob\<lparr>u_balance := 1\<rparr>) (Some 20)
       = (Some (NotAuthorized ''cantAfford''), ex_group\<lparr>g_balance := 0\<rparr>, ex_bob\<lparr>u_balance := 1\<rparr>)
   \<and> createChallenge (ex_bob\<lparr>u_balance := 1\<rparr>) (ex_body\<lparr>b_prize := Some 20\<rparr>) ''c2'' False
        (Some (ex_group\<lparr>g_balance := 0\<rparr>))
       = Inl (NotAuthorized ''cantAfford'')"
proof -
  let ?g = "ex_group\<lparr>g_balance := 0\<rparr>"
  let ?u = "ex_bob\<lparr>u_balance := 1\<rparr>"
  let ?b = "ex_body\<lparr>b_prize := Some 20\<rparr>"
  have pos: "(0::rat) < 20" by simp
  have short: "js_div 20 4 > js_add (u_balance ?u) (groupBalance ?g ?u)"
    using js_small by (simp add: groupBalance_def ex_group_def ex_bob_def)
  have auth: "b_prize ?b = Some 20
              \<and> createChallenge_authorize ?u (b_group ?b) (b_prize ?b) (Some ?g) = Inr ?g"
    by (simp add: createChallenge_authorize_def ex_group_def ex_bob_def ex_body_def)
  show ?thesis
    using insufficient_funds_rejected [OF pos short, of ?b "Some ?g" "''c2''"] pos short auth
    by simp
qed

text \<open>
  C6, as stated, compares the prize cost with the sum of the two balances. Ann has 0.1,
  her guild 0.2, and the prize is 1.2000000000000002 (each a double): the quarter of the
  prize exceeds the sum of the two balances, but the sum the handler computes is rounded
  up to that quarter, so funding succeeds, and it leaves Ann with a balance below zero.
\<close>

theorem insufficient_funds_exact_sum:
  "round_double dbl_0_1 = dbl_0_1 \<and> round_double (2 * dbl_0_1) = 2 * dbl_0_1
   \<and> round_double (1351079888211149 / 1125899906842624) = 1351079888211149 / 1125899906842624
   \<and> (0::rat) < 1351079888211149 / 1125899906842624
   \<and> groupBalance (ex_group\<lparr>g_balance := 2 * dbl_0_1\<rparr>) (ex_ann\<lparr>u_balance := dbl_0_1\<rparr>)
       = 2 * dbl_0_1
   \<and> (1351079888211149 / 1125899906842624) / 4
       > u_balance (ex_ann\<lparr>u_balance := dbl_0_1\<rparr>)
         + groupBalance (ex_group\<lparr>g_balance := 2 * dbl_0_1\<rparr>) (ex_ann\<lparr>u_balance := dbl_0_1\<rparr>)
   \<and> createChallenge_fund (ex_group\<lparr>g_balance := 2 * dbl_0_1\<rparr>) (ex_ann\<lparr>u_balance := dbl_0_1\<rparr>)
        (Some (1351079888211149 / 1125899906842624))
       = (None, ex_group\<lparr>g_balance := 0\<rparr>, ex_ann\<lparr>u_balance := - (1 / 36028797018963968)\<rparr>)"
  by code_simp

text \<open>
  C7. When the funding member does not lead the group, the eligible group balance is 0
  and funding leaves the group as it was (its balance being a double); a positive prize
  whose cost the member's balance covers is debited from the member alone, by the
  subtraction of doubles.
\<close>

theorem nonleader_spares_group:
  assumes "g_leader grp \<noteq> u_id usr"
    and "round_double (g_balance grp) = g_balance grp"
  shows "groupBalance grp usr = 0
         \<and> fst (snd (createChallenge_fund grp usr prize)) = grp
         \<and> (0 < p \<and> 0 < js_div p 4 \<and> js_div p 4 \<le> js_add (u_balance usr) 0
            \<longrightarrow> createChallenge_fund grp usr (Some p)
                  = (None, grp, usr\<lparr>u_balance := js_sub (u_balance usr) (js_div p 4)\<rparr>))"
proof -
  have gb: "groupBalance grp usr = 0"
    using assms(1) by (simp add: groupBalance_def)
  have keep: "grp\<lparr>g_balance := js_sub (g_balance grp) 0\<rparr> = grp"
    using assms(2) by (simp add: js_sub_def)
  have grp: "fst (snd (createChallenge_fund grp usr prize)) = grp"
  proof (cases prize)
    case None
    then show ?thesis by (simp add: createChallenge_fund_def)
  next
    case (Some q)
    show ?thesis
    proof (cases "0 < q")
      case False
      with Some show ?thesis by (simp add: createChallenge_fund_def)
    next
      case True
      then have "0 \<le> js_div q 4" by (rule js_div_nonneg)
      then consider "js_div q 4 = 0" | "0 < js_div q 4" by linarith
      then show ?thesis
      proof cases
        case 1
        with Some True keep show ?thesis
          by (simp add: createChallenge_fund_def gb Let_def)
      next
        case 2
        with Some True show ?thesis
          by (simp add: createChallenge_fund_def gb Let_def)
      qed
    qed
  qed
  have pay: "0 < p \<and> 0 < js_div p 4 \<and> js_div p 4 \<le> js_add (u_balance usr) 0
             \<longrightarrow> createChallenge_fund grp usr (Some p)
                   = (None, grp, usr\<lparr>u_balance := js_sub (u_balance usr) (js_div p 4)\<rparr>)"
    by (auto simp: createChallenge_fund_def gb Let_def)
  from gb grp pay show ?thesis by blast
qed

theorem nonleader_spares_group_witness:
  "g_leader ex_group \<noteq> u_id ex_bob
   \<and> round_double (g_balance ex_group) = g_balance ex_group
   \<and> (0::rat) < 8 \<and> 0 < js_div 8 4 \<and> js_div 8 4 \<le> js_add (u_balance ex_bob) 0
   \<and> groupBalance ex_group ex_bob = 0
   \<and> fst (snd (createChallenge_fund ex_group ex_bob (Some 8))) = ex_group
   \<and> createChallenge_fund ex_group ex_bob (Some 8)
       = (None, ex_group, ex_bob\<lparr>u_balance := 8\<rparr>)"
proof -
  have h: "g_leader ex_group \<noteq> u_id ex_bob"
    by (simp add: ex_group_def ex_bob_def)
  have d: "round_double (g_balance ex_group) = g_balance ex_group"
    using js_small by (simp add: ex_group_def)
  have n: "(0::rat) < 8 \<and> 0 < js_div 8 4 \<and> js_div 8 4 \<le> js_add (u_balance ex_bob) 0
           \<and> js_sub (u_balance ex_bob) (js_div 8 4) = 8"
    using js_small by (simp add: ex_bob_def)
  show ?thesis
    using nonleader_spares_group [OF h d, of "Some 8" 8] h d n by simp
qed

section \<open>The creation workflow\<close>

lemma fund_keeps_rest:
  "createChallenge_fund grp usr prize = (e, grp1, usr1) \<Longrightarrow>
   g_challengeCount grp1 = g_challengeCount grp \<and> g_id grp1 = g_id grp
   \<and> u_contributor_admin usr1 = u_contributor_admin usr \<and> u_id usr1 = u_id usr"
  by (cases prize) (auto simp: createChallenge_fund_def Let_def split: if_splits)

lemma prepare_cases:
  assumes "createChallenge_prepare usr b newId found = Inr p"
  obtains grp grp1 usr1 where "found = Some grp"
    and "createChallenge_authorize usr (b_group b) (b_prize b) found = Inr grp"
    and "createChallenge_fund grp usr (b_prize b) = (None, grp1, usr1)"
    and "p = createChallenge_construct grp1 usr1 b newId"
proof -
  from assms obtain grp where a: "createChallenge_authorize usr (b_group b) (b_prize b) found = Inr grp"
    by (auto simp: createChallenge_prepare_def split: sum.splits)
  then have f: "found = Some grp"
    by (auto simp: createChallenge_authorize_def split: option.splits if_splits)
  obtain e grp1 usr1 where r: "createChallenge_fund grp usr (b_prize b) = (e, grp1, usr1)"
    by (cases "createChallenge_fund grp usr (b_prize b)") auto
  with assms a have "e = None" "p = createChallenge_construct grp1 usr1 b newId"
    by (auto simp: createChallenge_prepare_def split: option.splits)
  with a f r that show thesis by blast
qed

lemma prepare_raises_count:
  assumes "createChallenge_prepare usr b newId (Some grp) = Inr p"
  shows "g_challengeCount (p_group p) = g_challengeCount grp + 1"
proof -
  from assms obtain grp0 grp1 usr1 where "Some grp = Some grp0"
    and f: "createChallenge_fund grp0 usr (b_prize b) = (None, grp1, usr1)"
    and p: "p = createChallenge_construct grp1 usr1 b newId"
    by (rule prepare_cases)
  then have "g_challengeCount grp1 = g_challengeCount grp"
    using fund_keeps_rest [OF f] by simp
  then show ?thesis by (simp add: p createChallenge_construct_def Let_def)
qed

lemma createChallenge_never_succeeds:
  "createChallenge usr b newId validationErrors found \<noteq> Inr r"
  by (simp add: createChallenge_def js_array_map_def split: sum.split)

lemma createChallenge_after_prepare:
  "createChallenge_prepare usr b newId found = Inr p \<Longrightarrow>
   createChallenge usr b newId False found = Inl (TypeError ''callbackfn is not a function'')"
  by (simp add: createChallenge_def js_array_map_def)

text \<open>
  C3. The claim says that a request which passes validation, authorization and funding
  gets its seed tasks built and the challenge returned. Ann's request passes all three
  and reaches line 82, where the handler fails with a TypeError: no task is built and no
  challenge is returned.
\<close>

theorem createChallenge_fails_on_map:
  "createChallenge_prepare ex_ann ex_body ''c2'' (Some ex_group)
     = Inr (createChallenge_construct (ex_group\<lparr>g_balance := 0\<rparr>) (ex_ann\<lparr>u_balance := 4\<rparr>)
              ex_body ''c2'')
   \<and> createChallenge ex_ann ex_body ''c2'' False (Some ex_group)
       = Inl (TypeError ''callbackfn is not a function'')"
proof -
  have fund: "createChallenge_fund ex_group ex_ann (Some 8)
                = (None, ex_group\<lparr>g_balance := 0\<rparr>, ex_ann\<lparr>u_balance := 4\<rparr>)"
    by code_simp
  have prep: "createChallenge_prepare ex_ann ex_body ''c2'' (Some ex_group)
     = Inr (createChallenge_construct (ex_group\<lparr>g_balance := 0\<rparr>) (ex_ann\<lparr>u_balance := 4\<rparr>)
              ex_body ''c2'')"
    using fund
    by (simp add: createChallenge_prepare_def createChallenge_authorize_def
        ex_group_def ex_ann_def ex_body_def)
  then show ?thesis
    by (simp add: createChallenge_def js_array_map_def)
qed


text \<open>
  C10. The challenge built at line 80 is official exactly when the creating member is an
  administrator and the request asks for it: for a member who is no administrator the
  flag is false whatever the request says.
\<close>

theorem official_only_for_admin:
  assumes "createChallenge_prepare usr b newId found = Inr p"
  shows "(c_official (p_challenge p) \<longleftrightarrow> u_contributor_admin usr \<and> b_official b)
         \<and> (\<not> u_contributor_admin usr \<longrightarrow> \<not> c_official (p_challenge p))"
proof -
  from assms obtain grp grp1 usr1
    where f: "createChallenge_fund grp usr (b_prize b) = (None, grp1, usr1)"
      and p: "p = createChallenge_construct grp1 usr1 b newId"
    by (rule prepare_cases)
  have "u_contributor_admin usr1 = u_contributor_admin usr"
    using fund_keeps_rest [OF f] by simp
  then show ?thesis
    by (simp add: p createChallenge_construct_def newChallenge_def Let_def)
qed

theorem official_only_for_admin_witness:
  "createChallenge_prepare ex_bob ex_body ''c2'' (Some ex_group)
     = Inr (createChallenge_construct ex_group (ex_bob\<lparr>u_balance := 8\<rparr>) ex_body ''c2'')
   \<and> \<not> u_contributor_admin ex_bob
   \<and> b_official ex_body
   \<and> \<not> c_official (p_challenge
          (createChallenge_construct ex_group (ex_bob\<lparr>u_balance := 8\<rparr>) ex_body ''c2''))"
proof -
  let ?p = "createChallenge_construct ex_group (ex_bob\<lparr>u_balance := 8\<rparr>) ex_body ''c2''"
  have fund: "createChallenge_fund ex_group ex_bob (Some 8)
                = (None, ex_group, ex_bob\<lparr>u_balance := 8\<rparr>)"
    by code_simp
  have prep: "createChallenge_prepare ex_bob ex_body ''c2'' (Some ex_group) = Inr ?p"
    using fund
    by (simp add: createChallenge_prepare_def createChallenge_authorize_def
        ex_group_def ex_bob_def ex_body_def)
  have facts: "\<not> u_contributor_admin ex_bob \<and> b_official ex_body"
    by (simp add: ex_bob_def ex_body_def)
  show ?thesis
    using official_only_for_admin [OF prep] prep facts by simp
qed

section \<open>What the teardown does to each collection\<close>

lemma closeChal_groups:
  "w_groups (closeChal w chal brk st) =
     attempt (ok_updateGroup st) (decChallengeCount (c_group chal)) (w_groups w)"
  by (simp add: closeChal_def Let_def)

lemma closeChal_tasks:
  "w_tasks (closeChal w chal brk st) =
     attempt (ok_breakTasks st)
       (breakTasks (c_id chal) (br_broken brk) (map_option u_profile_name (br_winner brk)))
       (attempt (ok_removeTasks st) (removeSeedTasks (c_id chal)) (w_tasks w))"
  by (simp add: closeChal_def Let_def)

lemma closeChal_challenges:
  "w_challenges (closeChal w chal brk st) =
     attempt (ok_removeChallenge st) (removeChallenge (c_id chal)) (w_challenges w)"
  by (simp add: closeChal_def Let_def)

lemma closeChal_sent:
  "w_sent (closeChal w chal brk st) =
     (case br_winner brk of
        None \<Rightarrow> w_sent w
      | Some wn \<Rightarrow> attempt (ok_saveWinner st) (notifyWinner (awardWinner wn chal) chal) (w_sent w))"
  by (simp add: closeChal_def Let_def)



lemma closeChal_decrements:
  "(ok_updateGroup st \<and> w_groups w (c_group chal) = Some g
      \<longrightarrow> w_groups (closeChal w chal brk st) (c_group chal)
            = Some (g\<lparr>g_challengeCount := g_challengeCount g - 1\<rparr>))
   \<and> (gid \<noteq> c_group chal \<longrightarrow> w_groups (closeChal w chal brk st) gid = w_groups w gid)"
  by (cases "w_groups w (c_group chal)")
    (simp_all add: closeChal_groups attempt_def decChallengeCount_def)


text \<open>
  The order of the refund and of the save matters when the winner leads the challenge:
  the save writes the balance it computed from the loaded document, so a refund applied
  before it is overwritten, and one applied after it is added.
\<close>

lemma closeChal_order_matters:
  "map_option u_balance
     (w_users (closeChal ex_world ex_challenge
                 \<lparr>br_broken = Some ''CHALLENGE_DELETED'', br_winner = Some ex_ann\<rparr>
                 ex_settled) ''ann'') = Some 7
   \<and> map_option u_balance
        (w_users (closeChal ex_world ex_challenge
                    \<lparr>br_broken = Some ''CHALLENGE_DELETED'', br_winner = Some ex_ann\<rparr>
                    (ex_settled\<lparr>save_before_refund := True\<rparr>)) ''ann'') = Some 9"
  by code_simp

text \<open>
  C9. In a teardown, a seed task (one without an owner) bound to the challenge is gone
  once the removal succeeds. A task with an owner is never deleted, whichever operations
  succeed: when it is bound to the challenge and the update succeeds it carries the
  reason of the teardown and the profile name of the winner, if there is one; otherwise
  it stays as it was.
\<close>

theorem teardown_tasks:
  assumes "w_tasks w k = Some t"
  shows "(t_challenge_id t = Some (c_id chal) \<and> t_userId t = None \<and> ok_removeTasks st
            \<longrightarrow> w_tasks (closeChal w chal brk st) k = None)
         \<and> (t_userId t \<noteq> None
            \<longrightarrow> w_tasks (closeChal w chal brk st) k =
                  Some (if t_challenge_id t = Some (c_id chal) \<and> ok_breakTasks st
                        then t\<lparr>t_challenge_broken := br_broken brk,
                               t_challenge_winner := map_option u_profile_name (br_winner brk)\<rparr>
                        else t))"
  using assms
  by (simp add: closeChal_tasks attempt_def removeSeedTasks_def breakTasks_def)

theorem teardown_tasks_witness:
  "w_tasks ex_world ''t1'' = Some ex_seed
   \<and> t_challenge_id ex_seed = Some (c_id ex_challenge) \<and> t_userId ex_seed = None
   \<and> ok_removeTasks ex_settled
   \<and> w_tasks (closeChal ex_world ex_challenge
        \<lparr>br_broken = Some ''CHALLENGE_DELETED'', br_winner = Some ex_cy\<rparr> ex_settled) ''t1'' = None
   \<and> w_tasks ex_world ''t2'' = Some ex_copy
   \<and> t_challenge_id ex_copy = Some (c_id ex_challenge) \<and> t_userId ex_copy \<noteq> None
   \<and> ok_breakTasks ex_settled
   \<and> w_tasks (closeChal ex_world ex_challenge
        \<lparr>br_broken = Some ''CHALLENGE_DELETED'', br_winner = Some ex_cy\<rparr> ex_settled) ''t2''
       = Some (ex_copy\<lparr>t_challenge_broken := Some ''CHALLENGE_DELETED'',
                       t_challenge_winner := Some ''Cy''\<rparr>)"
proof -
  let ?brk = "\<lparr>br_broken = Some ''CHALLENGE_DELETED'', br_winner = Some ex_cy\<rparr>"
  have seed: "w_tasks ex_world ''t1'' = Some ex_seed"
    and copy: "w_tasks ex_world ''t2'' = Some ex_copy"
    by (simp_all add: ex_world_def)
  have facts: "t_challenge_id ex_seed = Some (c_id ex_challenge) \<and> t_userId ex_seed = None
      \<and> ok_removeTasks ex_settled \<and> t_challenge_id ex_copy = Some (c_id ex_challenge)
      \<and> t_userId ex_copy \<noteq> None \<and> ok_breakTasks ex_settled
      \<and> u_profile_name ex_cy = ''Cy''"
    by (simp add: ex_seed_def ex_copy_def ex_challenge_def ex_settled_def ex_cy_def)
  show ?thesis
    using teardown_tasks [OF seed, of ex_challenge ex_settled ?brk]
      teardown_tasks [OF copy, of ex_challenge ex_settled ?brk] seed copy facts
    by simp
qed

section \<open>Selecting a winner\<close>

lemma selectChallengeWinner_always_NotFound:
  "selectChallengeWinner w usr challengeId winnerId False st
     = (Inl (NotFound ''challengeNotFound''), w)"
  by (simp add: selectChallengeWinner_def selectChallengeWinner_found_def)


text \<open>
  C2. The claim says that selecting a winner fails with NotFound only when the challenge
  does not exist. Here the challenge exists, Ann leads it, and Cy exists and has joined
  it; the handler still answers that the challenge was not found, and no teardown runs.
\<close>

theorem selectChallengeWinner_rejects_existing_challenge:
  "w_challenges ex_world ''c1'' = Some ex_challenge
   \<and> c_leader ex_challenge = u_id ex_ann
   \<and> w_users ex_world ''cy'' = Some ex_cy
   \<and> c_id ex_challenge \<in> set (u_challenges ex_cy)
   \<and> selectChallengeWinner ex_world ex_ann ''c1'' ''cy'' False ex_settled
       = (Inl (NotFound ''challengeNotFound''), ex_world)"
  by (simp add: selectChallengeWinner_def selectChallengeWinner_found_def
      ex_world_def ex_challenge_def ex_ann_def ex_cy_def)


section \<open>The refund of the leader\<close>



end
